theory Spec2Isabelle
  imports
    Main
    "HOL-Library.Word"
    "HOL-Library.Char_ord"
    "HOL-Library.List_Lexorder"
    "HOL-Library.Product_Lexorder"
    "HOL-Library.Multiset"
begin

unbundle bit_operations_syntax

section \<open>Machine types and the standard-library comparisons used by lava.hxx\<close>

text \<open>
  \<^verbatim>\<open>uint32_t\<close> and \<^verbatim>\<open>uint64_t\<close> are words; \<^verbatim>\<open>unsigned long id\<close> is 64 bits wide.
  An object pointer (\<^verbatim>\<open>const SourceLval*\<close>, \<^verbatim>\<open>const Dua*\<close>, ...) is the address it holds:
  \<^verbatim>\<open>std::tie\<close> compares pointer members by address, never through the pointee.
\<close>

type_synonym u32 = "32 word"
type_synonym u64 = "64 word"
type_synonym ptr = "64 word"

text \<open>
  \<^verbatim>\<open>std::lexicographical_compare\<close>, which is \<^verbatim>\<open>operator<\<close> of \<^verbatim>\<open>std::vector\<close>: walk both
  ranges together; the first position where one element is less decides; when one
  range ends first, the shorter one is less.
\<close>

fun lexicographical_compare :: "('a \<Rightarrow> 'a \<Rightarrow> bool) \<Rightarrow> 'a list \<Rightarrow> 'a list \<Rightarrow> bool" where
  "lexicographical_compare lt [] [] = False"
| "lexicographical_compare lt [] (y # ys) = True"
| "lexicographical_compare lt (x # xs) [] = False"
| "lexicographical_compare lt (x # xs) (y # ys) =
     (if lt x y then True
      else if lt y x then False
      else lexicographical_compare lt xs ys)"

text \<open>
  \<^verbatim>\<open>operator<\<close> of \<^verbatim>\<open>std::string\<close>: \<^verbatim>\<open>char_traits<char>\<close> compares characters as
  unsigned bytes, then the shorter string is less.
\<close>

definition char_lt :: "char \<Rightarrow> char \<Rightarrow> bool" where
  "char_lt c d = ((of_char c :: nat) < of_char d)"

definition string_less :: "string \<Rightarrow> string \<Rightarrow> bool" where
  "string_less s t = lexicographical_compare char_lt s t"

definition vec_u32_less :: "u32 list \<Rightarrow> u32 list \<Rightarrow> bool" where
  "vec_u32_less xs ys = lexicographical_compare (\<lambda>x y. x < y) xs ys"

definition vec_ptr_less :: "ptr list \<Rightarrow> ptr list \<Rightarrow> bool" where
  "vec_ptr_less xs ys = lexicographical_compare (\<lambda>x y. x < y) xs ys"

text \<open>
  \<^verbatim>\<open>operator<\<close> of \<^verbatim>\<open>std::tuple\<close> at one component: with \<open>lt\<close> the value of
  \<^verbatim>\<open>get<i>(t) < get<i>(u)\<close>, \<open>gt\<close> the value of \<^verbatim>\<open>get<i>(u) < get<i>(t)\<close> and \<open>rest\<close>
  the comparison of the remaining components, the result is
  \<^verbatim>\<open>lt || (!gt && rest)\<close>. Past the last component the comparison is \<open>False\<close>.
\<close>

definition tuple_less_step :: "bool \<Rightarrow> bool \<Rightarrow> bool \<Rightarrow> bool" where
  "tuple_less_step lt gt rest = (lt \<or> (\<not> gt \<and> rest))"

text \<open>\<^verbatim>\<open>bool\<close> members are compared after promotion to \<^verbatim>\<open>int\<close>: \<^verbatim>\<open>false < true\<close>.\<close>

definition bool_val :: "bool \<Rightarrow> int" where
  "bool_val b = (if b then 1 else 0)"

section \<open>SourceLval\<close>

datatype Timing = NULL_TIMING | BEFORE_OCCURRENCE | AFTER_OCCURRENCE

fun Timing_val :: "Timing \<Rightarrow> int" where
  "Timing_val NULL_TIMING = 0"
| "Timing_val BEFORE_OCCURRENCE = 1"
| "Timing_val AFTER_OCCURRENCE = 2"

record SourceLval =
  SourceLval_id :: u64
  SourceLval_file :: string
  SourceLval_line :: u32
  SourceLval_ast_name :: string
  SourceLval_timing :: Timing

text \<open>
  \<^verbatim>\<open>SourceLval::operator<\<close>:
  \<^verbatim>\<open>std::tie(file, line, ast_name, timing) < std::tie(other.file, ...)\<close>.
\<close>

definition SourceLval_operator_less :: "SourceLval \<Rightarrow> SourceLval \<Rightarrow> bool" where
  "SourceLval_operator_less a b =
     tuple_less_step
       (string_less (SourceLval_file a) (SourceLval_file b))
       (string_less (SourceLval_file b) (SourceLval_file a))
    (tuple_less_step
       (SourceLval_line a < SourceLval_line b)
       (SourceLval_line b < SourceLval_line a)
    (tuple_less_step
       (string_less (SourceLval_ast_name a) (SourceLval_ast_name b))
       (string_less (SourceLval_ast_name b) (SourceLval_ast_name a))
    (tuple_less_step
       (Timing_val (SourceLval_timing a) < Timing_val (SourceLval_timing b))
       (Timing_val (SourceLval_timing b) < Timing_val (SourceLval_timing a))
       False)))"

text \<open>
  The tuple the specification orders \<open>SourceLval\<close> by, ordered by the library's
  lexicographic orders on products and lists (characters by their byte value, the
  timing tag by its enumerator value).
\<close>

definition SourceLval_key :: "SourceLval \<Rightarrow> string \<times> u32 \<times> string \<times> Timing" where
  "SourceLval_key a =
     (SourceLval_file a, SourceLval_line a, SourceLval_ast_name a, SourceLval_timing a)"

definition SourceLval_key_ord :: "SourceLval \<Rightarrow> string \<times> u32 \<times> string \<times> int" where
  "SourceLval_key_ord a =
     (SourceLval_file a, SourceLval_line a, SourceLval_ast_name a,
      Timing_val (SourceLval_timing a))"

section \<open>Dua\<close>

text \<open>
  \<open>Dua_lval\<close> is \<^verbatim>\<open>const SourceLval*\<close> and \<open>Dua_viable_bytes\<close> is
  \<^verbatim>\<open>std::vector<const LabelSet*>\<close>: both hold addresses (a null entry is the address \<open>0\<close>).
  The index declared for the table is
  \<^verbatim>\<open>#pragma db index("DuaUniq") unique members(lval, inputfile, instr)\<close>.
\<close>

record Dua =
  Dua_id :: u64
  Dua_lval :: ptr
  Dua_viable_bytes :: "ptr list"
  Dua_all_labels :: "u32 list"
  Dua_inputfile :: string
  Dua_max_tcn :: u32
  Dua_max_cardinality :: u32
  Dua_instr :: u64
  Dua_fake_dua :: bool

text \<open>
  \<^verbatim>\<open>Dua::operator<\<close>:
  \<^verbatim>\<open>std::tie(lval, viable_bytes, inputfile, max_tcn, max_cardinality, instr, fake_dua)
     < std::tie(other.lval, other.viable_bytes, ...)\<close>.
\<close>

definition Dua_operator_less :: "Dua \<Rightarrow> Dua \<Rightarrow> bool" where
  "Dua_operator_less a b =
     tuple_less_step
       (Dua_lval a < Dua_lval b)
       (Dua_lval b < Dua_lval a)
    (tuple_less_step
       (vec_ptr_less (Dua_viable_bytes a) (Dua_viable_bytes b))
       (vec_ptr_less (Dua_viable_bytes b) (Dua_viable_bytes a))
    (tuple_less_step
       (string_less (Dua_inputfile a) (Dua_inputfile b))
       (string_less (Dua_inputfile b) (Dua_inputfile a))
    (tuple_less_step
       (Dua_max_tcn a < Dua_max_tcn b)
       (Dua_max_tcn b < Dua_max_tcn a)
    (tuple_less_step
       (Dua_max_cardinality a < Dua_max_cardinality b)
       (Dua_max_cardinality b < Dua_max_cardinality a)
    (tuple_less_step
       (Dua_instr a < Dua_instr b)
       (Dua_instr b < Dua_instr a)
    (tuple_less_step
       (bool_val (Dua_fake_dua a) < bool_val (Dua_fake_dua b))
       (bool_val (Dua_fake_dua b) < bool_val (Dua_fake_dua a))
       False))))))"

text \<open>The members of the \<open>DuaUniq\<close> index.\<close>

definition DuaUniq :: "Dua \<Rightarrow> ptr \<times> string \<times> u64" where
  "DuaUniq a = (Dua_lval a, Dua_inputfile a, Dua_instr a)"

section \<open>AttackPoint\<close>

datatype AttackPoint_Type = ATP_FUNCTION_CALL | ATP_POINTER_RW | ATP_LARGE_BUFFER_AVAIL

record AttackPoint =
  AttackPoint_id :: u64
  AttackPoint_file :: string
  AttackPoint_line :: u32
  AttackPoint_type :: AttackPoint_Type

text \<open>
  What a call can end in other than a value: \<^verbatim>\<open>assert(false)\<close> aborts the process
  (assertions enabled, that is, \<^verbatim>\<open>NDEBUG\<close> not defined).
\<close>

datatype failure = AssertionFailed

text \<open>
  \<^verbatim>\<open>os << m.line\<close> for a \<^verbatim>\<open>uint32_t\<close> on a stream with default flags: the decimal
  digits, most significant first, no padding.
\<close>

definition digit_char :: "nat \<Rightarrow> char" where
  "digit_char d = char_of (48 + d)"

fun dec_string :: "nat \<Rightarrow> string" where
  "dec_string n =
     (if n < 10 then [digit_char n] else dec_string (n div 10) @ [digit_char (n mod 10)])"

text \<open>
  \<^verbatim>\<open>operator<<(std::ostream &os, const AttackPoint &m)\<close>. The stream is the string
  written so far; the result is the stream after the call, or the failed assertion.
\<close>

definition AttackPoint_operator_lshift :: "string \<Rightarrow> AttackPoint \<Rightarrow> failure + string" where
  "AttackPoint_operator_lshift os m =
     (let os1 = os @ ''ATP ['' @ AttackPoint_file m @ '':''
                   @ dec_string (unat (AttackPoint_line m)) @ ''] {''
      in if AttackPoint_type m = ATP_POINTER_RW then
           Inr (os1 @ ''ATP_POINTER_RW'' @ ''}'')
         else if AttackPoint_type m = ATP_FUNCTION_CALL then
           Inr (os1 @ ''ATP_FUNCTION_CALL'' @ ''}'')
         else Inl AssertionFailed)"

section \<open>Bug\<close>

text \<open>
  \<open>Bug_max_liveness\<close> is a \<^verbatim>\<open>float\<close>, kept as its 32-bit pattern: no operation of the
  header computes with it.
\<close>

record Bug =
  Bug_id :: u64
  Bug_dua :: ptr
  Bug_selected_bytes :: "u32 list"
  Bug_atp :: ptr
  Bug_max_liveness :: "32 word"

text \<open>
  \<^verbatim>\<open>Bug::operator<\<close>:
  \<^verbatim>\<open>std::tie(atp, dua, selected_bytes) < std::tie(other.atp, other.dua, other.selected_bytes)\<close>.
\<close>

definition Bug_operator_less :: "Bug \<Rightarrow> Bug \<Rightarrow> bool" where
  "Bug_operator_less a b =
     tuple_less_step
       (Bug_atp a < Bug_atp b)
       (Bug_atp b < Bug_atp a)
    (tuple_less_step
       (Bug_dua a < Bug_dua b)
       (Bug_dua b < Bug_dua a)
    (tuple_less_step
       (vec_u32_less (Bug_selected_bytes a) (Bug_selected_bytes b))
       (vec_u32_less (Bug_selected_bytes b) (Bug_selected_bytes a))
       False))"

section \<open>SourceModification\<close>

record SourceModification =
  SourceModification_id :: u64
  SourceModification_lval :: ptr
  SourceModification_selected_bytes :: "u32 list"
  SourceModification_selected_bytes_hash :: u64
  SourceModification_atp :: ptr

text \<open>
  The shift of the constructor, \<^verbatim>\<open>(selected_bytes[i] + 1) << (16 * (i % 4))\<close>: the left
  operand is \<^verbatim>\<open>uint32_t\<close> (the sum wraps at 32 bits), so the result is a 32-bit value.
  For a count below 32 it is the operand shifted, the bits above bit 31 dropped. A count
  of 32 or more (the positions with \<^verbatim>\<open>i % 4\<close> equal to \<open>2\<close> or \<open>3\<close>) is outside what C++
  defines for a 32-bit operand: there the result is whatever the platform computes,
  the parameter \<open>wide\<close>.
\<close>

type_synonym wide_shift = "u32 \<Rightarrow> nat \<Rightarrow> u32"

definition shl_u32 :: "wide_shift \<Rightarrow> u32 \<Rightarrow> nat \<Rightarrow> u32" where
  "shl_u32 wide x n = (if n < 32 then push_bit n x else wide x n)"

text \<open>One platform, for evaluation: the count taken modulo 32, as the x86 shift does.\<close>

definition wide_shift_masked :: wide_shift where
  "wide_shift_masked x n = push_bit (n mod 32) x"

text \<open>
  The loop of the constructor, from index \<open>i\<close> with the hash accumulated so far:
  \<^verbatim>\<open>for (size_t i = 0; i < selected_bytes.size(); i++)
      selected_bytes_hash ^= (selected_bytes[i] + 1) << (16 * (i % 4));\<close>
  The 32-bit value is zero-extended to 64 bits by \<^verbatim>\<open>^=\<close>.
\<close>

function selected_bytes_hash_loop :: "wide_shift \<Rightarrow> u32 list \<Rightarrow> nat \<Rightarrow> u64 \<Rightarrow> u64" where
  "selected_bytes_hash_loop wide selected_bytes i h =
     (if i < length selected_bytes then
        selected_bytes_hash_loop wide selected_bytes (i + 1)
          (h XOR ucast (shl_u32 wide (selected_bytes ! i + 1) (16 * (i mod 4))))
      else h)"
  by pat_completeness auto
termination
  by (relation "measure (\<lambda>(wide, selected_bytes, i, h). length selected_bytes - i)") auto

declare selected_bytes_hash_loop.simps [simp del]

text \<open>
  \<^verbatim>\<open>SourceModification(const SourceLval *_lval, std::vector<uint32_t> _bytes,
     const AttackPoint* _atp)\<close>; \<open>id\<close> keeps its default member initialiser \<open>0\<close>.
\<close>

definition SourceModification_ctor ::
  "wide_shift \<Rightarrow> ptr \<Rightarrow> u32 list \<Rightarrow> ptr \<Rightarrow> SourceModification" where
  "SourceModification_ctor wide lval' bytes' atp' =
     \<lparr> SourceModification_id = 0,
       SourceModification_lval = lval',
       SourceModification_selected_bytes = bytes',
       SourceModification_selected_bytes_hash = selected_bytes_hash_loop wide bytes' 0 0,
       SourceModification_atp = atp' \<rparr>"

text \<open>
  The outcome of an attempt to construct: the constructor has no \<^verbatim>\<open>throw\<close>, no
  assertion and no early exit, so every attempt ends in a record.
\<close>

definition SourceModification_construct ::
  "wide_shift \<Rightarrow> ptr \<Rightarrow> u32 list \<Rightarrow> ptr \<Rightarrow> failure + SourceModification" where
  "SourceModification_construct wide lval' bytes' atp' =
     Inr (SourceModification_ctor wide lval' bytes' atp')"

text \<open>
  \<^verbatim>\<open>SourceModification::operator<\<close>:
  \<^verbatim>\<open>std::tie(atp, lval, selected_bytes_hash) < std::tie(other.atp, other.lval,
     other.selected_bytes_hash)\<close>.
\<close>

definition SourceModification_operator_less ::
  "SourceModification \<Rightarrow> SourceModification \<Rightarrow> bool" where
  "SourceModification_operator_less a b =
     tuple_less_step
       (SourceModification_atp a < SourceModification_atp b)
       (SourceModification_atp b < SourceModification_atp a)
    (tuple_less_step
       (SourceModification_lval a < SourceModification_lval b)
       (SourceModification_lval b < SourceModification_lval a)
    (tuple_less_step
       (SourceModification_selected_bytes_hash a < SourceModification_selected_bytes_hash b)
       (SourceModification_selected_bytes_hash b < SourceModification_selected_bytes_hash a)
       False))"

text \<open>
  The shift count the constructor uses at position \<open>i\<close>, \<^verbatim>\<open>16 * (i % 4)\<close>.
\<close>

definition shift_amount :: "nat \<Rightarrow> nat" where
  "shift_amount i = 16 * (i mod 4)"

text \<open>
  The constructor's hash in closed form: what the loop adds at position \<open>i\<close>, with the
  code's own shift \<open>shl_u32\<close> and its platform parameter, folded over all positions.
\<close>

definition position_term :: "wide_shift \<Rightarrow> u32 list \<Rightarrow> nat \<Rightarrow> u64" where
  "position_term wide bytes i = ucast (shl_u32 wide (bytes ! i + 1) (shift_amount i))"

definition xor_over_positions :: "wide_shift \<Rightarrow> u32 list \<Rightarrow> u64" where
  "xor_over_positions wide bytes =
     foldr (\<lambda>i acc. position_term wide bytes i XOR acc) [0..<length bytes] 0"

text \<open>
  The hash as the specification words it, independent of the code's shift: the
  exclusive-or, over all positions \<open>i\<close>, of the selected index at \<open>i\<close> plus one, a
  32-bit value, shifted left by \<open>0\<close>, \<open>16\<close>, \<open>32\<close> or \<open>48\<close> bits according to \<open>i mod 4\<close>,
  and accumulated at 64 bits. The shift is the left shift of a 32-bit value: the bits
  moved above bit 31 are lost, so a shift by 32 or 48 leaves \<open>0\<close>.
\<close>

definition specified_term :: "u32 list \<Rightarrow> nat \<Rightarrow> u64" where
  "specified_term bytes i = ucast (push_bit (shift_amount i) (bytes ! i + 1 :: u32))"

definition specified_hash :: "u32 list \<Rightarrow> u64" where
  "specified_hash bytes =
     foldr (\<lambda>i acc. specified_term bytes i XOR acc) [0..<length bytes] 0"

section \<open>Facts about the standard-library comparisons\<close>

lemma lexicographical_compare_linorder:
  fixes xs ys :: "'a::linorder list"
  shows "lexicographical_compare (\<lambda>x y. x < y) xs ys \<longleftrightarrow> xs < ys"
  by (induction "\<lambda>x y :: 'a. x < y" xs ys rule: lexicographical_compare.induct) auto

lemma string_less_iff: "string_less s t \<longleftrightarrow> s < t"
proof -
  have eq: "char_lt = (\<lambda>c d. c < d)"
    by (simp add: char_lt_def less_char_def fun_eq_iff)
  show ?thesis
    unfolding string_less_def eq by (rule lexicographical_compare_linorder)
qed

lemma vec_u32_less_iff: "vec_u32_less xs ys \<longleftrightarrow> xs < ys"
  by (simp add: vec_u32_less_def lexicographical_compare_linorder)

lemma vec_ptr_less_iff: "vec_ptr_less xs ys \<longleftrightarrow> xs < ys"
  by (simp add: vec_ptr_less_def lexicographical_compare_linorder)

lemma Timing_val_inj: "Timing_val s = Timing_val t \<longleftrightarrow> s = t"
  by (cases s; cases t) simp_all

lemma SourceLval_operator_less_key:
  "SourceLval_operator_less a b \<longleftrightarrow> SourceLval_key_ord a < SourceLval_key_ord b"
  by (auto simp: SourceLval_operator_less_def SourceLval_key_ord_def tuple_less_step_def
      string_less_iff)

lemma bool_val_less: "bool_val x < bool_val y \<longleftrightarrow> x < y"
  by (simp add: bool_val_def)

lemma Dua_operator_less_key:
  "Dua_operator_less a b \<longleftrightarrow>
     (Dua_lval a, Dua_viable_bytes a, Dua_inputfile a, Dua_max_tcn a, Dua_max_cardinality a,
      Dua_instr a, Dua_fake_dua a)
     < (Dua_lval b, Dua_viable_bytes b, Dua_inputfile b, Dua_max_tcn b, Dua_max_cardinality b,
        Dua_instr b, Dua_fake_dua b)"
  unfolding Dua_operator_less_def tuple_less_step_def string_less_iff vec_ptr_less_iff
    bool_val_less
  by auto

lemma Bug_operator_less_key:
  "Bug_operator_less a b \<longleftrightarrow>
     (Bug_atp a, Bug_dua a, Bug_selected_bytes a) < (Bug_atp b, Bug_dua b, Bug_selected_bytes b)"
  by (auto simp: Bug_operator_less_def tuple_less_step_def vec_u32_less_iff)

lemma SourceModification_operator_less_key:
  "SourceModification_operator_less a b \<longleftrightarrow>
     (SourceModification_atp a, SourceModification_lval a,
      SourceModification_selected_bytes_hash a)
     < (SourceModification_atp b, SourceModification_lval b,
        SourceModification_selected_bytes_hash b)"
  by (auto simp: SourceModification_operator_less_def tuple_less_step_def)

section \<open>The hash loop\<close>

text \<open>
  The loop started at index \<open>i\<close> with hash \<open>h\<close> folds the terms of the positions from
  \<open>i\<close> on into \<open>h\<close>.
\<close>

lemma selected_bytes_hash_loop_from:
  "selected_bytes_hash_loop wide bs i h =
     h XOR foldr (\<lambda>j acc. position_term wide bs j XOR acc) [i..<length bs] 0"
proof (induction wide bs i h rule: selected_bytes_hash_loop.induct)
  case (1 wide bs i h)
  show ?case
  proof (cases "i < length bs")
    case True
    then have upt: "[i..<length bs] = i # [i + 1..<length bs]"
      by (simp add: upt_conv_Cons)
    have "selected_bytes_hash_loop wide bs i h =
        selected_bytes_hash_loop wide bs (i + 1)
          (h XOR ucast (shl_u32 wide (bs ! i + 1) (16 * (i mod 4))))"
      using True by (subst selected_bytes_hash_loop.simps) simp
    also have "\<dots> = (h XOR position_term wide bs i) XOR
        foldr (\<lambda>j acc. position_term wide bs j XOR acc) [i + 1..<length bs] 0"
      using "1.IH" [OF True] by (simp only: position_term_def shift_amount_def)
    finally show ?thesis
      by (simp only: upt foldr.simps o_apply xor.assoc)
  next
    case False
    then have "selected_bytes_hash_loop wide bs i h = h"
      by (subst selected_bytes_hash_loop.simps) simp
    with False show ?thesis by simp
  qed
qed

lemma selected_bytes_hash_ctor:
  "SourceModification_selected_bytes_hash (SourceModification_ctor wide l bs a) =
     xor_over_positions wide bs"
  by (simp add: SourceModification_ctor_def selected_bytes_hash_loop_from
      xor_over_positions_def)

text \<open>Hashes of short selections; no position reaches a count of 32.\<close>

lemma xor_over_positions_0_1: "xor_over_positions wide [0, 1] = 131073"
  by (simp add: xor_over_positions_def position_term_def shift_amount_def shl_u32_def upt_rec)

lemma xor_over_positions_1_0: "xor_over_positions wide [1, 0] = 65538"
  by (simp add: xor_over_positions_def position_term_def shift_amount_def shl_u32_def upt_rec)

lemma xor_over_positions_65536: "xor_over_positions wide [65536] = 65537"
  by (simp add: xor_over_positions_def position_term_def shift_amount_def shl_u32_def upt_rec)

lemma xor_over_positions_0_0: "xor_over_positions wide [0, 0] = 65537"
  by (simp add: xor_over_positions_def position_term_def shift_amount_def shl_u32_def upt_rec)

text \<open>
  From the fifth position on the shift amounts repeat, so positions \<open>0\<close> and \<open>4\<close> share
  their bits: on every platform the selections \<open>[0, 0, 0, 0, 1]\<close> and \<open>[1, 0, 0, 0, 0]\<close>
  have the same hash.
\<close>

lemma xor_over_positions_cycle:
  "xor_over_positions wide [0, 0, 0, 0, 1] = xor_over_positions wide [1, 0, 0, 0, 0]"
proof -
  have aux: "a XOR (b XOR (A XOR (B XOR c))) = (a XOR b XOR c) XOR (A XOR B)"
    for a b c A B :: u64
    by (simp add: xor.assoc xor.left_commute xor.commute)
  have "xor_over_positions wide [0, 0, 0, 0, 1] =
      1 XOR (65536 XOR (ucast (wide 1 32) XOR (ucast (wide 1 48) XOR 2)))"
    by (simp add: xor_over_positions_def position_term_def shift_amount_def shl_u32_def upt_rec)
  moreover have "xor_over_positions wide [1, 0, 0, 0, 0] =
      2 XOR (65536 XOR (ucast (wide 1 32) XOR (ucast (wide 1 48) XOR 1)))"
    by (simp add: xor_over_positions_def position_term_def shift_amount_def shl_u32_def upt_rec)
  ultimately show ?thesis
    by (simp only: aux) simp
qed

text \<open>
  Where the code's shift and the specified one part: the first two positions agree on
  every platform; the third position contributes what the platform makes of a shift
  by 32.
\<close>

lemma xor_over_positions_short:
  "length bs \<le> 2 \<Longrightarrow> xor_over_positions wide bs = specified_hash bs"
proof -
  assume "length bs \<le> 2"
  then consider "bs = []" | x where "bs = [x]" | x y where "bs = [x, y]"
    by (cases bs; cases "tl bs"; cases "tl (tl bs)") auto
  then show ?thesis
    by cases
      (simp_all add: xor_over_positions_def specified_hash_def position_term_def
        specified_term_def shift_amount_def shl_u32_def upt_rec)
qed

lemma xor_over_positions_0_0_0:
  "xor_over_positions wide [0, 0, 0] = 1 XOR (65536 XOR ucast (wide 1 32))"
  by (simp add: xor_over_positions_def position_term_def shift_amount_def shl_u32_def upt_rec)

lemma specified_hash_0_0_0: "specified_hash [0, 0, 0] = 65537"
  by (simp add: specified_hash_def specified_term_def shift_amount_def upt_rec)

section \<open>Claims\<close>

text \<open>
  C7. The ordering on \<open>SourceLval\<close> is the lexicographic order of the tuple
  (file, line, ast_name, timing): one record is less than another exactly when its
  tuple is lexicographically smaller, and two records are equivalent (neither is less)
  exactly when they agree on that tuple, whatever their identifiers.
\<close>

theorem SourceLval_order_lexicographic:
  "(SourceLval_operator_less a b \<longleftrightarrow> SourceLval_key_ord a < SourceLval_key_ord b) \<and>
   ((\<not> SourceLval_operator_less a b \<and> \<not> SourceLval_operator_less b a) \<longleftrightarrow>
      SourceLval_key a = SourceLval_key b)"
proof
  show "SourceLval_operator_less a b \<longleftrightarrow> SourceLval_key_ord a < SourceLval_key_ord b"
    by (rule SourceLval_operator_less_key)
next
  have "SourceLval_key a = SourceLval_key b \<longleftrightarrow> SourceLval_key_ord a = SourceLval_key_ord b"
    by (simp add: SourceLval_key_def SourceLval_key_ord_def Timing_val_inj)
  then show "(\<not> SourceLval_operator_less a b \<and> \<not> SourceLval_operator_less b a) \<longleftrightarrow>
      SourceLval_key a = SourceLval_key b"
    unfolding SourceLval_operator_less_key by auto
qed

text \<open>
  C1. Two \<open>Dua\<close> candidates that agree on the declared uniqueness key
  (lval, input file, instruction count) should be equivalent under the comparison,
  whatever their other fields. Evaluated on the code: two candidates with the same
  \<open>DuaUniq\<close> members that differ in \<open>max_tcn\<close> alone are ordered, the first less than
  the second, so the comparison tells them apart.
\<close>

theorem Dua_operator_less_same_DuaUniq:
  "DuaUniq \<lparr> Dua_id = 0, Dua_lval = 4096, Dua_viable_bytes = [], Dua_all_labels = [],
         Dua_inputfile = ''in.bin'', Dua_max_tcn = 1, Dua_max_cardinality = 0,
         Dua_instr = 100, Dua_fake_dua = False \<rparr> =
   DuaUniq \<lparr> Dua_id = 0, Dua_lval = 4096, Dua_viable_bytes = [], Dua_all_labels = [],
         Dua_inputfile = ''in.bin'', Dua_max_tcn = 2, Dua_max_cardinality = 0,
         Dua_instr = 100, Dua_fake_dua = False \<rparr> \<and>
   Dua_operator_less
     \<lparr> Dua_id = 0, Dua_lval = 4096, Dua_viable_bytes = [], Dua_all_labels = [],
       Dua_inputfile = ''in.bin'', Dua_max_tcn = 1, Dua_max_cardinality = 0,
       Dua_instr = 100, Dua_fake_dua = False \<rparr>
     \<lparr> Dua_id = 0, Dua_lval = 4096, Dua_viable_bytes = [], Dua_all_labels = [],
       Dua_inputfile = ''in.bin'', Dua_max_tcn = 2, Dua_max_cardinality = 0,
       Dua_instr = 100, Dua_fake_dua = False \<rparr>"
  by (simp add: DuaUniq_def Dua_operator_less_def tuple_less_step_def vec_ptr_less_def
      string_less_def char_lt_def)

text \<open>
  C2, as the claim states it: two \<open>SourceModification\<close> records with equal attack point
  and lval but different selected-byte sequences are never equivalent. It fails: the
  selections \<open>[65536]\<close> and \<open>[0, 0]\<close> have the same hash, and the comparison reads the
  hash, not the sequence.
\<close>

theorem SourceModification_distinct_bytes_equivalent:
  "SourceModification_atp (SourceModification_ctor wide_shift_masked 4096 [65536] 8192) =
     SourceModification_atp (SourceModification_ctor wide_shift_masked 4096 [0, 0] 8192) \<and>
   SourceModification_lval (SourceModification_ctor wide_shift_masked 4096 [65536] 8192) =
     SourceModification_lval (SourceModification_ctor wide_shift_masked 4096 [0, 0] 8192) \<and>
   SourceModification_selected_bytes (SourceModification_ctor wide_shift_masked 4096 [65536] 8192) \<noteq>
     SourceModification_selected_bytes (SourceModification_ctor wide_shift_masked 4096 [0, 0] 8192) \<and>
   \<not> SourceModification_operator_less
       (SourceModification_ctor wide_shift_masked 4096 [65536] 8192)
       (SourceModification_ctor wide_shift_masked 4096 [0, 0] 8192) \<and>
   \<not> SourceModification_operator_less
       (SourceModification_ctor wide_shift_masked 4096 [0, 0] 8192)
       (SourceModification_ctor wide_shift_masked 4096 [65536] 8192)"
proof -
  have "SourceModification_selected_bytes_hash
          (SourceModification_ctor wide_shift_masked 4096 [65536] 8192) =
        SourceModification_selected_bytes_hash
          (SourceModification_ctor wide_shift_masked 4096 [0, 0] 8192)"
    by (simp only: selected_bytes_hash_ctor xor_over_positions_65536 xor_over_positions_0_0)
  then show ?thesis
    by (simp add: SourceModification_operator_less_key) (simp add: SourceModification_ctor_def)
qed

text \<open>
  C2, amended. Two \<open>SourceModification\<close> records are equivalent under the comparison
  exactly when they agree on (attack point, lval, selected-bytes hash). For two records
  built by the constructor with the same attack point and lval this means: exactly when
  the hashes of their selected-byte sequences coincide. So records that agree on
  (attack point, lval, selected-byte sequence) are equivalent, and records with
  different sequences are equivalent whenever the hashes collide.
\<close>

theorem SourceModification_equivalent_iff_hash:
  "((\<not> SourceModification_operator_less a b \<and> \<not> SourceModification_operator_less b a) \<longleftrightarrow>
      (SourceModification_atp a = SourceModification_atp b \<and>
       SourceModification_lval a = SourceModification_lval b \<and>
       SourceModification_selected_bytes_hash a = SourceModification_selected_bytes_hash b)) \<and>
   ((\<not> SourceModification_operator_less
         (SourceModification_ctor wide l bs1 p) (SourceModification_ctor wide l bs2 p) \<and>
     \<not> SourceModification_operator_less
         (SourceModification_ctor wide l bs2 p) (SourceModification_ctor wide l bs1 p)) \<longleftrightarrow>
      xor_over_positions wide bs1 = xor_over_positions wide bs2) \<and>
   \<not> SourceModification_operator_less
       ((SourceModification_ctor wide l bs p)\<lparr>SourceModification_id := i\<rparr>)
       ((SourceModification_ctor wide l bs p)\<lparr>SourceModification_id := j\<rparr>)"
proof (intro conjI)
  show "(\<not> SourceModification_operator_less a b \<and> \<not> SourceModification_operator_less b a) \<longleftrightarrow>
      (SourceModification_atp a = SourceModification_atp b \<and>
       SourceModification_lval a = SourceModification_lval b \<and>
       SourceModification_selected_bytes_hash a = SourceModification_selected_bytes_hash b)"
    unfolding SourceModification_operator_less_key by auto
next
  have fields: "SourceModification_atp (SourceModification_ctor wide l bs' p) = p"
    "SourceModification_lval (SourceModification_ctor wide l bs' p) = l" for bs'
    by (simp_all add: SourceModification_ctor_def)
  show "(\<not> SourceModification_operator_less
         (SourceModification_ctor wide l bs1 p) (SourceModification_ctor wide l bs2 p) \<and>
     \<not> SourceModification_operator_less
         (SourceModification_ctor wide l bs2 p) (SourceModification_ctor wide l bs1 p)) \<longleftrightarrow>
      xor_over_positions wide bs1 = xor_over_positions wide bs2"
    unfolding SourceModification_operator_less_key fields selected_bytes_hash_ctor by auto
next
  show "\<not> SourceModification_operator_less
       ((SourceModification_ctor wide l bs p)\<lparr>SourceModification_id := i\<rparr>)
       ((SourceModification_ctor wide l bs p)\<lparr>SourceModification_id := j\<rparr>)"
    by (simp add: SourceModification_operator_less_key)
qed

text \<open>
  C3. Any two \<open>Bug\<close> candidates that agree on (atp, dua, selected_bytes) are equivalent
  under the comparison, neither less than the other, whatever their \<open>max_liveness\<close>
  values and identifiers: a store that deduplicates by the comparison keeps one record
  for both.
\<close>

theorem Bug_equivalent_on_BugUniq:
  "Bug_atp a = Bug_atp b \<Longrightarrow> Bug_dua a = Bug_dua b \<Longrightarrow>
   Bug_selected_bytes a = Bug_selected_bytes b \<Longrightarrow>
   \<not> Bug_operator_less a b \<and> \<not> Bug_operator_less b a"
  by (simp add: Bug_operator_less_key)

theorem Bug_equivalent_on_BugUniq_witness:
  "Bug_atp \<lparr> Bug_id = 1, Bug_dua = 8192, Bug_selected_bytes = [2, 5], Bug_atp = 4096,
             Bug_max_liveness = 0 \<rparr> =
   Bug_atp \<lparr> Bug_id = 2, Bug_dua = 8192, Bug_selected_bytes = [2, 5], Bug_atp = 4096,
             Bug_max_liveness = 1065353216 \<rparr> \<and>
   \<not> Bug_operator_less
      \<lparr> Bug_id = 1, Bug_dua = 8192, Bug_selected_bytes = [2, 5], Bug_atp = 4096,
        Bug_max_liveness = 0 \<rparr>
      \<lparr> Bug_id = 2, Bug_dua = 8192, Bug_selected_bytes = [2, 5], Bug_atp = 4096,
        Bug_max_liveness = 1065353216 \<rparr> \<and>
   \<not> Bug_operator_less
      \<lparr> Bug_id = 2, Bug_dua = 8192, Bug_selected_bytes = [2, 5], Bug_atp = 4096,
        Bug_max_liveness = 1065353216 \<rparr>
      \<lparr> Bug_id = 1, Bug_dua = 8192, Bug_selected_bytes = [2, 5], Bug_atp = 4096,
        Bug_max_liveness = 0 \<rparr>"
  using Bug_equivalent_on_BugUniq
    [of "\<lparr> Bug_id = 1, Bug_dua = 8192, Bug_selected_bytes = [2, 5], Bug_atp = 4096,
           Bug_max_liveness = 0 \<rparr>"
        "\<lparr> Bug_id = 2, Bug_dua = 8192, Bug_selected_bytes = [2, 5], Bug_atp = 4096,
           Bug_max_liveness = 1065353216 \<rparr>"]
  by simp

text \<open>
  C4. For every selected-byte sequence the stored hash should be the exclusive-or, over
  all positions, of the selected index plus one shifted left by an amount that takes
  four distinct values on the first four positions, at the widths of the code (a
  32-bit shifted value accumulated into a 64-bit hash). Evaluated on the code for the
  selection \<open>[0, 0, 0]\<close>, with the shift count taken modulo 32: the constructor stores
  \<open>65536\<close>, because the third index is shifted by \<open>0\<close> bits like the first and cancels
  it; the specified exclusive-or, with the third index shifted by 32 bits, is \<open>65537\<close>.
\<close>

theorem SourceModification_hash_third_position:
  "SourceModification_selected_bytes_hash
     (SourceModification_ctor wide_shift_masked 4096 [0, 0, 0] 8192) = 65536 \<and>
   specified_hash [0, 0, 0] = 65537 \<and>
   shift_amount 2 = 32 \<and>
   shl_u32 wide_shift_masked 1 (shift_amount 2) = shl_u32 wide_shift_masked 1 (shift_amount 0)"
proof (intro conjI)
  show "SourceModification_selected_bytes_hash
     (SourceModification_ctor wide_shift_masked 4096 [0, 0, 0] 8192) = 65536"
    by (simp add: selected_bytes_hash_ctor xor_over_positions_0_0_0 wide_shift_masked_def)
  show "specified_hash [0, 0, 0] = 65537"
    by (rule specified_hash_0_0_0)
  show "shift_amount 2 = 32"
    by (simp add: shift_amount_def)
  show "shl_u32 wide_shift_masked 1 (shift_amount 2) =
      shl_u32 wide_shift_masked 1 (shift_amount 0)"
    by (simp add: shift_amount_def shl_u32_def wide_shift_masked_def)
qed

text \<open>
  C5. The stored hash is a function of the ordered selected-byte sequence alone: two
  records constructed from the same sequence have the same \<open>selected_bytes_hash\<close>,
  whatever their lval and attack point.
\<close>

theorem SourceModification_hash_of_bytes_alone:
  "SourceModification_selected_bytes_hash (SourceModification_ctor wide l1 bs a1) =
   SourceModification_selected_bytes_hash (SourceModification_ctor wide l2 bs a2)"
  by (simp only: selected_bytes_hash_ctor)

text \<open>
  C6. The hash is order-sensitive: there are two selected-byte sequences with the same
  indices in different orders (\<open>[0, 1]\<close> and \<open>[1, 0]\<close>) whose hashes differ.
\<close>

theorem SourceModification_hash_order_sensitive:
  "\<exists>xs ys. mset xs = mset ys \<and>
     SourceModification_selected_bytes_hash (SourceModification_ctor wide l xs a) \<noteq>
     SourceModification_selected_bytes_hash (SourceModification_ctor wide l ys a)"
proof -
  have "mset [0, 1 :: u32] = mset [1, 0] \<and>
     SourceModification_selected_bytes_hash (SourceModification_ctor wide l [0, 1] a) \<noteq>
     SourceModification_selected_bytes_hash (SourceModification_ctor wide l [1, 0] a)"
    by (simp add: selected_bytes_hash_ctor xor_over_positions_0_1 xor_over_positions_1_0)
  then show ?thesis by blast
qed

text \<open>
  C9, as the claim states it: an attempt to create a \<open>SourceModification\<close> with an
  empty selected-byte sequence fails. It does not: the attempt ends in a record.
\<close>

theorem SourceModification_empty_bytes_constructed:
  "SourceModification_construct wide_shift_masked 4096 [] 8192 =
     Inr \<lparr> SourceModification_id = 0, SourceModification_lval = 4096,
           SourceModification_selected_bytes = [],
           SourceModification_selected_bytes_hash = 0, SourceModification_atp = 8192 \<rparr>"
  by (simp add: SourceModification_construct_def SourceModification_ctor_def
      selected_bytes_hash_loop.simps)

text \<open>
  C9, amended. The constructor does not check the selection: constructing a
  \<open>SourceModification\<close> with an empty selected-byte sequence never fails and yields the
  record with the given lval and attack point, no selected bytes, and hash \<open>0\<close>.
\<close>

theorem SourceModification_empty_bytes_hash_zero:
  "SourceModification_construct wide l [] a =
     Inr \<lparr> SourceModification_id = 0, SourceModification_lval = l,
           SourceModification_selected_bytes = [],
           SourceModification_selected_bytes_hash = 0, SourceModification_atp = a \<rparr>"
  by (simp add: SourceModification_construct_def SourceModification_ctor_def
      selected_bytes_hash_loop.simps)

text \<open>
  C10. The stream-output operator of \<open>AttackPoint\<close> prints the site kinds
  \<open>ATP_POINTER_RW\<close> and \<open>ATP_FUNCTION_CALL\<close> only: it ends in the failed assertion
  exactly for the kind \<open>ATP_LARGE_BUFFER_AVAIL\<close>, it returns a stream exactly for the
  other two kinds, and an \<open>AttackPoint\<close> on which the assertion fails exists.
\<close>

theorem AttackPoint_output_asserts_on_large_buffer:
  "((AttackPoint_operator_lshift os m = Inl AssertionFailed) =
      (AttackPoint_type m = ATP_LARGE_BUFFER_AVAIL)) \<and>
   ((\<exists>s. AttackPoint_operator_lshift os m = Inr s) =
      (AttackPoint_type m = ATP_POINTER_RW \<or> AttackPoint_type m = ATP_FUNCTION_CALL)) \<and>
   (\<exists>m'. AttackPoint_operator_lshift os m' = Inl AssertionFailed)"
proof -
  have "AttackPoint_operator_lshift os \<lparr> AttackPoint_id = 0, AttackPoint_file = [],
      AttackPoint_line = 0, AttackPoint_type = ATP_LARGE_BUFFER_AVAIL \<rparr> = Inl AssertionFailed"
    by (simp add: AttackPoint_operator_lshift_def)
  then have "\<exists>m'. AttackPoint_operator_lshift os m' = Inl AssertionFailed" ..
  then show ?thesis
    by (cases "AttackPoint_type m") (simp_all add: AttackPoint_operator_lshift_def Let_def)
qed

end
